theory Spec2Isabelle
  imports Main "HOL-Library.Word"
begin

section \<open>JavaScript values\<close>

text \<open>
  The values that flow through \<^verbatim>\<open>server.js\<close>: parsed JSON documents (\<^verbatim>\<open>req.body\<close>, the
  \<^verbatim>\<open>data\<close> of an axios response), object literals built by the handlers, and
  \<^verbatim>\<open>undefined\<close>, which is what reading an absent property gives. An object is an
  association list in property order; a lookup takes the first binding of a key.

  \<^verbatim>\<open>req.body\<close> is what \<^verbatim>\<open>bodyParser.json()\<close> (line 8) left there: the parsed document,
  which is an object or an array, or \<^verbatim>\<open>undefined\<close> for a request without a JSON body. A
  handler below is its function of \<^verbatim>\<open>req.body\<close>; the parser in front of it, and what the
  framework does with an error it throws, are in the section on the application.

  The program never computes with a number: it copies numbers, tests one for truthiness
  (\<^verbatim>\<open>||\<close>) and renders one in a template literal. The number type is therefore the
  parameter \<open>'n\<close>, and the two primitives of the engine that look inside a number are
  fields of the record \<open>runtime\<close>, together with the engine's wording of a \<^verbatim>\<open>TypeError\<close>.
\<close>

datatype 'n jsval =
    JUndefined
  | JNull
  | JBool bool
  | JNum 'n
  | JStr string
  | JArr "'n jsval list"
  | JObj "(string \<times> 'n jsval) list"

record 'n runtime =
  number_is_falsy :: "'n \<Rightarrow> bool"  \<comment> \<open>\<^verbatim>\<open>+0\<close>, \<^verbatim>\<open>-0\<close> and \<^verbatim>\<open>NaN\<close>\<close>
  number_to_string :: "'n \<Rightarrow> string"  \<comment> \<open>\<^verbatim>\<open>Number.prototype.toString\<close>\<close>
  type_error_text :: "'n jsval \<Rightarrow> string \<Rightarrow> string"
    \<comment> \<open>the message of the \<^verbatim>\<open>TypeError\<close> raised at a value, for the property involved\<close>

definition nullish :: "'n jsval \<Rightarrow> bool" where
  "nullish v = (v = JUndefined \<or> v = JNull)"

text \<open>
  \<^verbatim>\<open>v.k\<close> for the property names this program reads (\<^verbatim>\<open>amount\<close>, \<^verbatim>\<open>phone\<close>,
  \<^verbatim>\<open>accountReference\<close>, \<^verbatim>\<open>description\<close>, \<^verbatim>\<open>confirmationURL\<close>, \<^verbatim>\<open>validationURL\<close>,
  \<^verbatim>\<open>access_token\<close>), none of which is a property of a string, a number, a boolean or an
  array, or inherited by an object. Reading a property of \<^verbatim>\<open>null\<close> or \<^verbatim>\<open>undefined\<close>
  throws; that case is \<open>read_property\<close>.
\<close>

fun get_prop :: "'n jsval \<Rightarrow> string \<Rightarrow> 'n jsval" where
  "get_prop (JObj kvs) k = (case map_of kvs k of Some v \<Rightarrow> v | None \<Rightarrow> JUndefined)"
| "get_prop _ k = JUndefined"

text \<open>Truthiness, \<^verbatim>\<open>a || b\<close>, and a default in a destructuring pattern (\<^verbatim>\<open>{ k = d }\<close>),
  which applies to \<^verbatim>\<open>undefined\<close> only.\<close>

fun truthy :: "'n runtime \<Rightarrow> 'n jsval \<Rightarrow> bool" where
  "truthy rt JUndefined = False"
| "truthy rt JNull = False"
| "truthy rt (JBool b) = b"
| "truthy rt (JNum n) = (\<not> number_is_falsy rt n)"
| "truthy rt (JStr s) = (s \<noteq> [])"
| "truthy rt (JArr xs) = True"
| "truthy rt (JObj kvs) = True"

definition js_or :: "'n runtime \<Rightarrow> 'n jsval \<Rightarrow> 'n jsval \<Rightarrow> 'n jsval" where
  "js_or rt a b = (if truthy rt a then a else b)"

definition default_to :: "'n jsval \<Rightarrow> 'n jsval \<Rightarrow> 'n jsval" where
  "default_to v d = (if v = JUndefined then d else v)"

section \<open>Errors\<close>

text \<open>
  What a \<^verbatim>\<open>catch\<close> block can be handed. An error has a \<^verbatim>\<open>message\<close>; an axios error that
  came with a response (a status outside 2xx) also has \<^verbatim>\<open>response.data\<close>, the parsed
  body of that response.
\<close>

datatype 'n js_error =
    AxiosError string "'n jsval option"
  | TypeError string

fun err_message :: "'n js_error \<Rightarrow> string" where
  "err_message (AxiosError m r) = m"
| "err_message (TypeError m) = m"

text \<open>\<^verbatim>\<open>err.response?.data\<close>\<close>

fun err_response_data :: "'n js_error \<Rightarrow> 'n jsval" where
  "err_response_data (AxiosError m (Some d)) = d"
| "err_response_data (AxiosError m None) = JUndefined"
| "err_response_data (TypeError m) = JUndefined"

definition read_property :: "'n runtime \<Rightarrow> 'n jsval \<Rightarrow> string \<Rightarrow> 'n js_error + 'n jsval" where
  "read_property rt v k =
     (if nullish v then Inl (TypeError (type_error_text rt v k)) else Inr (get_prop v k))"

text \<open>
  \<^verbatim>\<open>`${v}`\<close>: the string conversion of a template literal. An array joins its elements
  with commas, \<^verbatim>\<open>null\<close> and \<^verbatim>\<open>undefined\<close> elements giving the empty string. A parsed
  JSON object prints as \<^verbatim>\<open>[object Object]\<close> through the \<^verbatim>\<open>toString\<close> it inherits; one with
  a key \<^verbatim>\<open>toString\<close> of its own has a value there that cannot be called, and the
  conversion throws.
\<close>

fun join_comma :: "string list \<Rightarrow> string" where
  "join_comma [] = []"
| "join_comma [s] = s"
| "join_comma (s # t # ss) = s @ '','' @ join_comma (t # ss)"

fun first_error :: "('e + 'a) list \<Rightarrow> 'e + 'a list" where
  "first_error [] = Inr []"
| "first_error (Inl e # rs) = Inl e"
| "first_error (Inr x # rs) =
     (case first_error rs of Inl e \<Rightarrow> Inl e | Inr xs \<Rightarrow> Inr (x # xs))"

fun to_string :: "'n runtime \<Rightarrow> 'n jsval \<Rightarrow> 'n js_error + string" where
  "to_string rt JUndefined = Inr ''undefined''"
| "to_string rt JNull = Inr ''null''"
| "to_string rt (JBool b) = Inr (if b then ''true'' else ''false'')"
| "to_string rt (JNum n) = Inr (number_to_string rt n)"
| "to_string rt (JStr s) = Inr s"
| "to_string rt (JArr xs) =
     (case first_error
             (map (\<lambda>x. if x = JUndefined \<or> x = JNull then Inr [] else to_string rt x) xs) of
        Inl err \<Rightarrow> Inl err
      | Inr ss \<Rightarrow> Inr (join_comma ss))"
| "to_string rt (JObj kvs) =
     (case map_of kvs ''toString'' of
        None \<Rightarrow> Inr ''[object Object]''
      | Some v \<Rightarrow> Inl (TypeError (type_error_text rt (JObj kvs) ''toString'')))"

section \<open>Base64\<close>

text \<open>
  \<^verbatim>\<open>Buffer.from(s).toString('base64')\<close>: the standard alphabet with \<^verbatim>\<open>=\<close> padding, over the
  UTF-8 bytes of \<^verbatim>\<open>s\<close>. A \<open>string\<close> here is that byte sequence (a \<open>char\<close> is a byte).
\<close>

definition b64_char :: "nat \<Rightarrow> char" where
  "b64_char n =
     (if n < 26 then char_of (65 + n)
      else if n < 52 then char_of (71 + n)
      else if n < 62 then char_of (n - 4)
      else if n = 62 then CHR ''+'' else CHR ''/'')"

fun base64 :: "string \<Rightarrow> string" where
  "base64 [] = []"
| "base64 [a] =
     (let x = of_char a :: nat
      in [b64_char (x div 4), b64_char (x mod 4 * 16), CHR ''='', CHR ''=''])"
| "base64 [a, b] =
     (let x = of_char a :: nat; y = of_char b :: nat
      in [b64_char (x div 4), b64_char (x mod 4 * 16 + y div 16),
          b64_char (y mod 16 * 4), CHR ''=''])"
| "base64 (a # b # c # rest) =
     (let x = of_char a :: nat; y = of_char b :: nat; z = of_char c :: nat
      in [b64_char (x div 4), b64_char (x mod 4 * 16 + y div 16),
          b64_char (y mod 16 * 4 + z div 64), b64_char (z mod 64)] @ base64 rest)"

text \<open>
  \<^verbatim>\<open>server.js\<close> only encodes. The decoder below is the inverse the round-trip property is
  stated against: four characters of the alphabet give three bytes, a final group
  padded with one or two \<^verbatim>\<open>=\<close> gives two bytes or one, and anything else is rejected.
\<close>

definition b64_index :: "char \<Rightarrow> nat option" where
  "b64_index c =
     (let x = of_char c :: nat
      in if 65 \<le> x \<and> x \<le> 90 then Some (x - 65)
         else if 97 \<le> x \<and> x \<le> 122 then Some (x - 71)
         else if 48 \<le> x \<and> x \<le> 57 then Some (x + 4)
         else if c = CHR ''+'' then Some 62
         else if c = CHR ''/'' then Some 63
         else None)"

fun base64_decode :: "string \<Rightarrow> string option" where
  "base64_decode [] = Some []"
| "base64_decode (c1 # c2 # c3 # c4 # rest) =
     (case (b64_index c1, b64_index c2) of
        (Some s1, Some s2) \<Rightarrow>
          (if rest = [] \<and> c3 = CHR ''='' \<and> c4 = CHR ''='' then
             Some [char_of (s1 * 4 + s2 div 16)]
           else
             (case b64_index c3 of
                Some s3 \<Rightarrow>
                  (if rest = [] \<and> c4 = CHR ''='' then
                     Some [char_of (s1 * 4 + s2 div 16), char_of (s2 mod 16 * 16 + s3 div 4)]
                   else
                     (case (b64_index c4, base64_decode rest) of
                        (Some s4, Some bs) \<Rightarrow>
                          Some (char_of (s1 * 4 + s2 div 16)
                                # char_of (s2 mod 16 * 16 + s3 div 4)
                                # char_of (s3 mod 4 * 64 + s4) # bs)
                      | _ \<Rightarrow> None))
              | None \<Rightarrow> None))
      | _ \<Rightarrow> None)"
| "base64_decode _ = None"

section \<open>Configuration\<close>

text \<open>
  The constants destructured from \<^verbatim>\<open>process.env\<close> (lines 18 to 20) and
  \<^verbatim>\<open>process.env.CALLBACK_URL\<close> (line 56). A variable that is not set is \<^verbatim>\<open>undefined\<close>
  (\<open>None\<close>): the process only warns about it (lines 22 to 24) and goes on.
\<close>

record env =
  CONSUMER_KEY :: "string option"
  CONSUMER_SECRET :: "string option"
  SHORTCODE :: "string option"
  PASSKEY :: "string option"
  BASE_URL :: "string option"
  CALLBACK_URL :: "string option"

text \<open>\<^verbatim>\<open>`${X}`\<close>, \<^verbatim>\<open>X || d\<close> and \<^verbatim>\<open>X\<close> as a property value, for such a variable.\<close>

definition env_template :: "string option \<Rightarrow> string" where
  "env_template x = (case x of None \<Rightarrow> ''undefined'' | Some s \<Rightarrow> s)"

definition env_or :: "string option \<Rightarrow> string \<Rightarrow> string" where
  "env_or x d = (case x of None \<Rightarrow> d | Some s \<Rightarrow> if s = [] then d else s)"

definition env_value :: "string option \<Rightarrow> 'n jsval" where
  "env_value x = (case x of None \<Rightarrow> JUndefined | Some s \<Rightarrow> JStr s)"

definition base_url :: "env \<Rightarrow> string" where
  "base_url env = env_or (BASE_URL env) ''https://sandbox.safaricom.co.ke''"

section \<open>Outbound calls\<close>

text \<open>
  A call of \<^verbatim>\<open>axios.get\<close> or \<^verbatim>\<open>axios.post\<close> is a request, recorded with the headers the
  program sets, and the gateway's answer: the promise resolves with a response whose
  \<^verbatim>\<open>data\<close> is the parsed body, or rejects with an error. The gateway is a function from
  the request to that answer.
\<close>

datatype http_method = GET | POST

record 'n http_request =
  req_method :: http_method
  req_url :: string
  req_headers :: "(string \<times> string) list"
  req_body :: "'n jsval"

type_synonym 'n upstream = "'n http_request \<Rightarrow> 'n js_error + 'n jsval"

text \<open>
  What a handler did: its calls of axios in order, and either the response it sent
  (\<^verbatim>\<open>res.status(..).json(..)\<close>) or the error it threw without sending one, which the
  framework then answers for it.
\<close>

record 'n reply =
  res_status :: nat
  res_body :: "'n jsval"

record 'n run =
  calls :: "'n http_request list"
  outcome :: "'n js_error + 'n reply"

section \<open>The token helper (lines 27 to 32)\<close>

definition token_request :: "env \<Rightarrow> 'n http_request" where
  "token_request env =
     (let url = base_url env @ ''/oauth/v1/generate?grant_type=client_credentials'';
          auth = base64 (env_template (CONSUMER_KEY env) @ '':''
                         @ env_template (CONSUMER_SECRET env))
      in \<lparr>req_method = GET, req_url = url,
          req_headers = [(''Authorization'', ''Basic '' @ auth)],
          req_body = JUndefined\<rparr>)"

definition getOAuthToken ::
  "'n runtime \<Rightarrow> env \<Rightarrow> 'n upstream \<Rightarrow> 'n http_request list \<times> ('n js_error + 'n jsval)" where
  "getOAuthToken rt env upstream =
     (case upstream (token_request env) of
        Inl err \<Rightarrow> ([token_request env], Inl err)
      | Inr data \<Rightarrow> ([token_request env], read_property rt data ''access_token''))"

section \<open>The timestamp (line 44)\<close>

text \<open>
  \<^verbatim>\<open>new Date()\<close> is the clock reading; \<open>utc_time\<close> holds its UTC calendar fields (the
  month from 1 to 12, the day from 1 to 31, the hour below 24, the minute and the second
  below 60, the millisecond below 1000), which is what \<^verbatim>\<open>toISOString\<close> prints:
  \<^verbatim>\<open>YYYY-MM-DDTHH:mm:ss.sssZ\<close>, every field with a fixed number of decimal digits, and a
  year outside 0 to 9999 as a sign and six digits. \<open>decimal w n\<close> is \<open>n\<close> in \<open>w\<close> digits.
\<close>

record utc_time =
  year :: int
  month :: nat
  day :: nat
  hour :: nat
  minute :: nat
  second :: nat
  millisecond :: nat

definition digit :: "nat \<Rightarrow> char" where
  "digit n = char_of (48 + n mod 10)"

fun decimal :: "nat \<Rightarrow> nat \<Rightarrow> string" where
  "decimal 0 n = []"
| "decimal (Suc w) n = decimal w (n div 10) @ [digit n]"

definition toISOString :: "utc_time \<Rightarrow> string" where
  "toISOString t =
     (if 0 \<le> year t \<and> year t \<le> 9999 then decimal 4 (nat (year t))
      else (if year t < 0 then ''-'' else ''+'') @ decimal 6 (nat \<bar>year t\<bar>))
     @ ''-'' @ decimal 2 (month t) @ ''-'' @ decimal 2 (day t)
     @ ''T'' @ decimal 2 (hour t) @ '':'' @ decimal 2 (minute t) @ '':'' @ decimal 2 (second t)
     @ ''.'' @ decimal 3 (millisecond t) @ ''Z''"

text \<open>\<^verbatim>\<open>.replace(/[-:TZ.]/g,'').slice(0,14)\<close>: every character of the class
  \<^verbatim>\<open>[-:TZ.]\<close> is removed, and the first 14 characters of the rest are kept.\<close>

definition separator :: "char \<Rightarrow> bool" where
  "separator c = (c \<in> set ''-:TZ.'')"

definition stk_timestamp :: "utc_time \<Rightarrow> string" where
  "stk_timestamp now = take 14 (filter (\<lambda>c. \<not> separator c) (toISOString now))"

section \<open>POST /stkpush (lines 38 to 69)\<close>

text \<open>Line 45: \<^verbatim>\<open>Buffer.from(`${SHORTCODE}${PASSKEY}${timestamp}`).toString('base64')\<close>\<close>

definition stk_password :: "env \<Rightarrow> string \<Rightarrow> string" where
  "stk_password env timestamp =
     base64 (env_template (SHORTCODE env) @ env_template (PASSKEY env) @ timestamp)"

text \<open>Line 40 and lines 44 to 59: the destructured body, with its two defaults, and the
  payload built from it.\<close>

definition stk_payload :: "env \<Rightarrow> utc_time \<Rightarrow> 'n jsval \<Rightarrow> 'n jsval" where
  "stk_payload env now body =
     (let amount = get_prop body ''amount'';
          phone = get_prop body ''phone'';
          accountReference = default_to (get_prop body ''accountReference'') (JStr ''BOOK'');
          description = default_to (get_prop body ''description'') (JStr ''Hotel booking'');
          timestamp = stk_timestamp now;
          password = stk_password env timestamp
      in JObj
          [(''BusinessShortCode'', env_value (SHORTCODE env)),
           (''Password'', JStr password),
           (''Timestamp'', JStr timestamp),
           (''TransactionType'', JStr ''CustomerPayBillOnline''),
           (''Amount'', amount),
           (''PartyA'', phone),
           (''PartyB'', env_value (SHORTCODE env)),
           (''PhoneNumber'', phone),
           (''CallBackURL'',
              JStr (env_or (CALLBACK_URL env) ''https://yourdomain.com/callback'')),
           (''AccountReference'', accountReference),
           (''TransactionDesc'', description)])"

text \<open>Lines 61 and 62: the call to the gateway, \<open>token_text\<close> being \<^verbatim>\<open>`${token}`\<close>.\<close>

definition stk_request :: "env \<Rightarrow> utc_time \<Rightarrow> 'n jsval \<Rightarrow> string \<Rightarrow> 'n http_request" where
  "stk_request env now body token_text =
     \<lparr>req_method = POST,
      req_url = base_url env @ ''/mpesa/stkpush/v1/processrequest'',
      req_headers = [(''Authorization'', ''Bearer '' @ token_text)],
      req_body = stk_payload env now body\<rparr>"

text \<open>The \<^verbatim>\<open>catch\<close> block of lines 65 to 68, the same as that of lines 88 to 91:
  \<^verbatim>\<open>res.status(500).json({ error: err.response?.data || err.message })\<close>, after the calls
  \<open>cs\<close> made so far.\<close>

definition failed :: "'n runtime \<Rightarrow> 'n http_request list \<Rightarrow> 'n js_error \<Rightarrow> 'n run" where
  "failed rt cs err =
     \<lparr>calls = cs,
      outcome = Inr \<lparr>res_status = 500,
                     res_body = JObj [(''error'',
                        js_or rt (err_response_data err) (JStr (err_message err)))]\<rparr>\<rparr>"

text \<open>
  The handler. Line 40 throws when \<^verbatim>\<open>req.body\<close> is \<^verbatim>\<open>undefined\<close> or \<^verbatim>\<open>null\<close>; line 41
  throws what \<^verbatim>\<open>getOAuthToken\<close> throws; the template literal of line 62 is evaluated
  before \<^verbatim>\<open>axios.post\<close> is called and may throw; every throw ends in the \<^verbatim>\<open>catch\<close>.
\<close>

definition stkpush_route ::
  "'n runtime \<Rightarrow> env \<Rightarrow> 'n upstream \<Rightarrow> utc_time \<Rightarrow> 'n jsval \<Rightarrow> 'n run" where
  "stkpush_route rt env upstream now body =
     (if nullish body then failed rt [] (TypeError (type_error_text rt body ''amount''))
      else
        (case getOAuthToken rt env upstream of
           (cs, Inl err) \<Rightarrow> failed rt cs err
         | (cs, Inr token) \<Rightarrow>
             (case to_string rt token of
                Inl err \<Rightarrow> failed rt cs err
              | Inr token_text \<Rightarrow>
                  (let request = stk_request env now body token_text
                   in case upstream request of
                        Inl err \<Rightarrow> failed rt (cs @ [request]) err
                      | Inr data \<Rightarrow>
                          \<lparr>calls = cs @ [request],
                           outcome = Inr \<lparr>res_status = 200, res_body = data\<rparr>\<rparr>))))"

section \<open>POST /c2b/register (lines 75 to 92)\<close>

definition register_request :: "env \<Rightarrow> 'n jsval \<Rightarrow> string \<Rightarrow> 'n http_request" where
  "register_request env body token_text =
     (let confirmationURL = get_prop body ''confirmationURL'';
          validationURL = get_prop body ''validationURL'';
          url = base_url env @ ''/mpesa/c2b/v1/registerurl'';
          payload = JObj
            [(''ShortCode'', env_value (SHORTCODE env)),
             (''ResponseType'', JStr ''Completed''),
             (''ConfirmationURL'', confirmationURL),
             (''ValidationURL'', validationURL)]
      in \<lparr>req_method = POST, req_url = url,
          req_headers = [(''Authorization'', ''Bearer '' @ token_text)],
          req_body = payload\<rparr>)"

definition c2b_register_route :: "'n runtime \<Rightarrow> env \<Rightarrow> 'n upstream \<Rightarrow> 'n jsval \<Rightarrow> 'n run" where
  "c2b_register_route rt env upstream body =
     (if nullish body then
        failed rt [] (TypeError (type_error_text rt body ''confirmationURL''))
      else
        (case getOAuthToken rt env upstream of
           (cs, Inl err) \<Rightarrow> failed rt cs err
         | (cs, Inr token) \<Rightarrow>
             (case to_string rt token of
                Inl err \<Rightarrow> failed rt cs err
              | Inr token_text \<Rightarrow>
                  (let request = register_request env body token_text
                   in case upstream request of
                        Inl err \<Rightarrow> failed rt (cs @ [request]) err
                      | Inr data \<Rightarrow>
                          \<lparr>calls = cs @ [request],
                           outcome = Inr \<lparr>res_status = 200, res_body = data\<rparr>\<rparr>))))"

section \<open>POST /callback (lines 98 to 103)\<close>

text \<open>
  The handler, as a function of \<^verbatim>\<open>req.body\<close>. Line 99 logs
  \<^verbatim>\<open>JSON.stringify(req.body).slice(0,1000)\<close>. \<^verbatim>\<open>JSON.stringify\<close> gives a string for every
  value but \<^verbatim>\<open>undefined\<close>, for which it gives \<^verbatim>\<open>undefined\<close>, and \<^verbatim>\<open>.slice\<close> then throws;
  the handler has no \<^verbatim>\<open>try\<close>, so it sends nothing and the framework answers the error.
  What is written to the console is not part of the model.
\<close>

definition callback_route :: "('n::zero) runtime \<Rightarrow> 'n jsval \<Rightarrow> 'n run" where
  "callback_route rt body =
     (if body = JUndefined then
        \<lparr>calls = [], outcome = Inl (TypeError (type_error_text rt JUndefined ''slice''))\<rparr>
      else
        \<lparr>calls = [],
         outcome = Inr \<lparr>res_status = 200,
                        res_body = JObj [(''ResultCode'', JNum 0),
                                         (''ResultDesc'', JStr ''Accepted'')]\<rparr>\<rparr>)"

section \<open>GET /token (lines 106 to 113)\<close>

definition token_route :: "'n runtime \<Rightarrow> env \<Rightarrow> 'n upstream \<Rightarrow> 'n run" where
  "token_route rt env upstream =
     (case getOAuthToken rt env upstream of
        (cs, Inr token) \<Rightarrow>
          \<lparr>calls = cs,
           outcome = Inr \<lparr>res_status = 200, res_body = JObj [(''access_token'', token)]\<rparr>\<rparr>
      | (cs, Inl err) \<Rightarrow>
          \<lparr>calls = cs,
           outcome = Inr \<lparr>res_status = 500,
                          res_body = JObj [(''error'', JStr (err_message err))]\<rparr>\<rparr>)"

section \<open>The application (line 8 and the four routes)\<close>

text \<open>
  Line 8 puts \<^verbatim>\<open>bodyParser.json()\<close> in front of every route. A request brings no JSON
  body (no body at all, or one that is not declared as \<^verbatim>\<open>application/json\<close>), or a JSON
  text within the parser's size limit, given here as the value it denotes, or text that
  is not JSON, or a body over the limit. The parser is strict by default: it hands an
  object or an array on as \<^verbatim>\<open>req.body\<close>, leaves \<^verbatim>\<open>req.body\<close> \<^verbatim>\<open>undefined\<close> when there is no
  JSON body, and refuses the rest, with status 400 for any other document and for text
  that is not JSON, and 413 for a body over the limit. This is the behaviour of the
  current releases (body-parser 2 with express 5); \<^verbatim>\<open>server.js\<close> names no version.
\<close>

datatype 'n content =
    NoJson
  | JsonText "'n jsval"
  | Malformed
  | Oversize

definition is_document :: "'n jsval \<Rightarrow> bool" where
  "is_document v = (case v of JObj kvs \<Rightarrow> True | JArr xs \<Rightarrow> True | _ \<Rightarrow> False)"

definition body_parser :: "'n content \<Rightarrow> nat + 'n jsval" where
  "body_parser c =
     (case c of
        NoJson \<Rightarrow> Inr JUndefined
      | JsonText v \<Rightarrow> if is_document v then Inr v else Inl 400
      | Malformed \<Rightarrow> Inl 400
      | Oversize \<Rightarrow> Inl 413)"

text \<open>
  What the client gets: the response a handler sent, or the page of the framework's
  error handler, which answers a refusal of the parser with the parser's status and an
  error thrown by a handler (a rejected promise of an \<^verbatim>\<open>async\<close> handler) with 500. The
  text of that page is not modelled.
\<close>

datatype 'n answer =
    Sent "'n reply"
  | ErrorPage nat

fun status_sent :: "'n answer \<Rightarrow> nat" where
  "status_sent (Sent reply) = res_status reply"
| "status_sent (ErrorPage status) = status"

record 'n served =
  outbound :: "'n http_request list"
  answer :: "'n answer"

definition express :: "'n run \<Rightarrow> 'n served" where
  "express r =
     \<lparr>outbound = calls r,
      answer = (case outcome r of Inl err \<Rightarrow> ErrorPage 500 | Inr reply \<Rightarrow> Sent reply)\<rparr>"

text \<open>The four routes registered on \<^verbatim>\<open>app\<close>, each request with what it brings, and the
  world it arrives in: the gateway's behaviour and the clock at that time.\<close>

datatype 'n inbound =
    PostStkpush "'n content"
  | PostC2bRegister "'n content"
  | PostCallback "'n content"
  | GetToken "'n content"

record 'n world =
  gateway :: "'n upstream"
  clock :: utc_time

fun content_of :: "'n inbound \<Rightarrow> 'n content" where
  "content_of (PostStkpush c) = c"
| "content_of (PostC2bRegister c) = c"
| "content_of (PostCallback c) = c"
| "content_of (GetToken c) = c"

fun handler :: "('n::zero) runtime \<Rightarrow> env \<Rightarrow> 'n world \<Rightarrow> 'n inbound \<Rightarrow> 'n jsval \<Rightarrow> 'n run" where
  "handler rt env w (PostStkpush c) body = stkpush_route rt env (gateway w) (clock w) body"
| "handler rt env w (PostC2bRegister c) body = c2b_register_route rt env (gateway w) body"
| "handler rt env w (PostCallback c) body = callback_route rt body"
| "handler rt env w (GetToken c) body = token_route rt env (gateway w)"

text \<open>
  The process-wide state a handler could change is the configuration: the constants of
  lines 18 to 20 and \<^verbatim>\<open>process.env\<close>. Serving a request returns, with what was done for
  the client, the configuration as the request leaves it, and the next request is
  served from that. No statement of \<^verbatim>\<open>server.js\<close> assigns to a module-level binding or to
  a property of one, so every branch leaves the configuration as it was found.
\<close>

definition dispatch ::
  "('n::zero) runtime \<Rightarrow> env \<Rightarrow> 'n world \<times> 'n inbound \<Rightarrow> 'n served \<times> env" where
  "dispatch rt env x =
     (case x of (w, r) \<Rightarrow>
        (case body_parser (content_of r) of
           Inl status \<Rightarrow> (\<lparr>outbound = [], answer = ErrorPage status\<rparr>, env)
         | Inr body \<Rightarrow> (express (handler rt env w r body), env)))"


text \<open>The calls of a run that go to the gateway proper (the token exchange is a GET).\<close>

definition gateway_posts :: "'n http_request list \<Rightarrow> 'n http_request list" where
  "gateway_posts cs = filter (\<lambda>c. req_method c = POST) cs"

section \<open>Fixtures\<close>

text \<open>
  Concrete inputs on which the theorems below are run. The numbers are the integers
  from 0 to \<open>2\<^sup>3\<^sup>2 - 1\<close>, each of which the engine holds exactly and prints in decimal;
  the messages are the engine's (V8) for the reads and conversions of this program.
  Then: the sandbox configuration with the short code and pass key of the
  specification's example; the instant 2024-01-01T12:00:00.000Z and the first instant
  of the year 10000; a gateway that answers every call, one that answers with another
  token, one whose token response has no \<^verbatim>\<open>access_token\<close>, one whose token response is
  the document \<^verbatim>\<open>null\<close>, one that refuses the token exchange with a 401 and a JSON error
  body, and one that hands out a token and then cannot be reached.
\<close>

type_synonym number = "32 word"

definition nat_text :: "nat \<Rightarrow> string" where
  "nat_text n =
     (let ds = dropWhile (\<lambda>c. c = CHR ''0'') (decimal 10 n)
      in if ds = [] then ''0'' else ds)"

definition quoted :: "string \<Rightarrow> string" where
  "quoted s = [CHR 0x27] @ s @ [CHR 0x27]"

definition fixture_runtime :: "number runtime" where
  "fixture_runtime =
     \<lparr>number_is_falsy = (\<lambda>n. n = 0),
      number_to_string = (\<lambda>n. nat_text (unat n)),
      type_error_text = (\<lambda>v k.
         if k = ''toString'' then ''Cannot convert object to primitive value''
         else if k = ''amount'' \<or> k = ''confirmationURL'' then
           ''Cannot destructure property '' @ quoted k @ '' of '' @ quoted ''req.body''
           @ '' as it is '' @ (if v = JNull then ''null'' else ''undefined'') @ ''.''
         else
           ''Cannot read properties of '' @ (if v = JNull then ''null'' else ''undefined'')
           @ '' (reading '' @ quoted k @ '')'')\<rparr>"

definition sandbox_env :: env where
  "sandbox_env =
     \<lparr>CONSUMER_KEY = Some ''key'', CONSUMER_SECRET = Some ''secret'',
      SHORTCODE = Some ''174379'', PASSKEY = Some ''test'',
      BASE_URL = None, CALLBACK_URL = None\<rparr>"

definition noon :: utc_time where
  "noon = \<lparr>year = 2024, month = 1, day = 1, hour = 12, minute = 0, second = 0,
           millisecond = 0\<rparr>"

definition year_10000 :: utc_time where
  "year_10000 = \<lparr>year = 10000, month = 1, day = 1, hour = 0, minute = 0, second = 0,
                 millisecond = 0\<rparr>"

definition push_body :: "number jsval" where
  "push_body = JObj [(''amount'', JNum 100), (''phone'', JStr ''254712345678'')]"

definition gateway_ok :: "number upstream" where
  "gateway_ok r =
     (if req_method r = GET
      then Inr (JObj [(''access_token'', JStr ''tok123''), (''expires_in'', JStr ''3599'')])
      else Inr (JObj [(''ResponseCode'', JStr ''0'')]))"


definition gateway_no_token :: "number upstream" where
  "gateway_no_token r =
     (if req_method r = GET then Inr (JObj [(''expires_in'', JStr ''3599'')])
      else Inr (JObj [(''ResponseCode'', JStr ''0'')]))"

definition gateway_null :: "number upstream" where
  "gateway_null r =
     (if req_method r = GET then Inr JNull
      else Inr (JObj [(''ResponseCode'', JStr ''0'')]))"

definition gateway_401 :: "number upstream" where
  "gateway_401 r =
     Inl (AxiosError ''Request failed with status code 401''
            (Some (JObj [(''errorMessage'', JStr ''Invalid credentials'')])))"

definition gateway_down_after_token :: "number upstream" where
  "gateway_down_after_token r =
     (if req_method r = GET then Inr (JObj [(''access_token'', JStr ''tok123'')])
      else Inl (AxiosError ''Network Error'' None))"

text \<open>A registration body that leaves \<^verbatim>\<open>confirmationURL\<close> out; a world in which the
  gateway answers; and two requests that arrive one after the other, the gateway giving
  the second another token than the first.\<close>

definition register_body :: "number jsval" where
  "register_body = JObj [(''validationURL'', JStr ''https://example.com/validation'')]"

definition world_ok :: "number world" where
  "world_ok = \<lparr>gateway = gateway_ok, clock = noon\<rparr>"


section \<open>Base64 decodes what it encoded\<close>

lemma b64_index_char: "n < 64 \<Longrightarrow> b64_index (b64_char n) = Some n"
  by (auto simp: b64_index_def b64_char_def Let_def)

lemma b64_char_not_pad: "n < 64 \<Longrightarrow> b64_char n \<noteq> CHR ''=''"
proof
  assume n: "n < 64" and eq: "b64_char n = CHR ''=''"
  from eq have "b64_index (b64_char n) = b64_index (CHR ''='')" by simp
  with n show False by (simp add: b64_index_char) (simp add: b64_index_def)
qed

lemma regroup1: "(x::nat) div 4 * 4 + (x mod 4 * 16 + y div 16) div 16 = x" if "y < 256"
  using that by auto

lemma regroup2:
  "((x::nat) mod 4 * 16 + y div 16) mod 16 * 16 + (y mod 16 * 4 + z div 64) div 4 = y"
  if "y < 256" "z < 256"
proof -
  have a: "(x mod 4 * 16 + y div 16) mod 16 = y div 16" using that by simp
  have b: "(y mod 16 * 4 + z div 64) div 4 = y mod 16" using that by simp
  show ?thesis unfolding a b by simp
qed

lemma regroup3: "((y::nat) mod 16 * 4 + z div 64) mod 4 * 64 + z mod 64 = z" if "z < 256"
proof -
  have a: "(y mod 16 * 4 + z div 64) mod 4 = z div 64" using that by simp
  show ?thesis unfolding a by simp
qed

lemma regroup1_last: "(x::nat) div 4 * 4 + (x mod 4 * 16) div 16 = x"
  by auto

lemma regroup2_last:
  "((x::nat) mod 4 * 16 + y div 16) mod 16 * 16 + (y mod 16 * 4) div 4 = y" if "y < 256"
proof -
  have a: "(x mod 4 * 16 + y div 16) mod 16 = y div 16" using that by simp
  show ?thesis unfolding a by simp
qed

lemma decode_one_byte:
  fixes x :: nat assumes "x < 256"
  shows "base64_decode [b64_char (x div 4), b64_char (x mod 4 * 16), CHR ''='', CHR ''='']
         = Some [char_of x]"
  using assms by (simp add: b64_index_char regroup1_last)

lemma decode_two_bytes:
  fixes x y :: nat assumes "x < 256" "y < 256"
  shows "base64_decode [b64_char (x div 4), b64_char (x mod 4 * 16 + y div 16),
            b64_char (y mod 16 * 4), CHR ''='']
         = Some [char_of x, char_of y]"
  using assms by (simp add: b64_index_char b64_char_not_pad regroup1 regroup2_last)

lemma decode_three_bytes:
  fixes x y z :: nat assumes "x < 256" "y < 256" "z < 256"
  shows "base64_decode ([b64_char (x div 4), b64_char (x mod 4 * 16 + y div 16),
            b64_char (y mod 16 * 4 + z div 64), b64_char (z mod 64)] @ cs)
         = map_option (\<lambda>bs. char_of x # char_of y # char_of z # bs) (base64_decode cs)"
  using assms
  by (simp add: b64_index_char b64_char_not_pad regroup1 regroup2 regroup3 split: option.split)

lemma base64_decode_base64: "base64_decode (base64 bs) = Some bs"
proof (induction bs rule: base64.induct)
  case 1
  show ?case by simp
next
  case (2 a)
  show ?case using decode_one_byte [of "of_char a"] by (simp add: Let_def)
next
  case (3 a b)
  show ?case using decode_two_bytes [of "of_char a" "of_char b"] by (simp add: Let_def)
next
  case (4 a b c rest)
  then show ?case
    using decode_three_bytes [of "of_char a" "of_char b" "of_char c" "base64 rest"]
    by (simp add: Let_def)
qed

section \<open>The digits of the timestamp\<close>










section \<open>What the routes call\<close>

lemma token_request_method: "req_method (token_request env) = GET"
  by (simp add: token_request_def Let_def)

lemma stk_request_method: "req_method (stk_request env now body token_text) = POST"
  by (simp add: stk_request_def)





lemma getOAuthToken_calls: "fst (getOAuthToken rt env upstream) = [token_request env]"
  by (simp add: getOAuthToken_def split: sum.split)

lemma getOAuthToken_result:
  "snd (getOAuthToken rt env upstream) =
     (case upstream (token_request env) of
        Inl err \<Rightarrow> Inl err
      | Inr data \<Rightarrow> read_property rt data ''access_token'')"
  by (simp add: getOAuthToken_def split: sum.split)

lemma getOAuthToken_pair:
  "getOAuthToken rt env upstream = ([token_request env], snd (getOAuthToken rt env upstream))"
  using getOAuthToken_calls [of rt env upstream] by (simp add: prod_eq_iff)

text \<open>The five ways through POST /stkpush.\<close>

lemma stkpush_route_no_body:
  assumes "nullish body"
  shows "stkpush_route rt env upstream now body =
    failed rt [] (TypeError (type_error_text rt body ''amount''))"
  using assms by (simp add: stkpush_route_def)

lemma stkpush_route_token_failed:
  assumes "\<not> nullish body" and "snd (getOAuthToken rt env upstream) = Inl err"
  shows "stkpush_route rt env upstream now body = failed rt [token_request env] err"
  using assms getOAuthToken_pair [of rt env upstream] by (simp add: stkpush_route_def)

lemma stkpush_route_token_unprintable:
  assumes "\<not> nullish body" and "snd (getOAuthToken rt env upstream) = Inr token"
    and "to_string rt token = Inl err"
  shows "stkpush_route rt env upstream now body = failed rt [token_request env] err"
  using assms getOAuthToken_pair [of rt env upstream] by (simp add: stkpush_route_def)

lemma stkpush_route_gateway_failed:
  assumes "\<not> nullish body" and "snd (getOAuthToken rt env upstream) = Inr token"
    and "to_string rt token = Inr token_text"
    and "upstream (stk_request env now body token_text) = Inl err"
  shows "stkpush_route rt env upstream now body =
    failed rt [token_request env, stk_request env now body token_text] err"
  using assms getOAuthToken_pair [of rt env upstream] by (simp add: stkpush_route_def)

lemma stkpush_route_succeeded:
  assumes "\<not> nullish body" and "snd (getOAuthToken rt env upstream) = Inr token"
    and "to_string rt token = Inr token_text"
    and "upstream (stk_request env now body token_text) = Inr data"
  shows "stkpush_route rt env upstream now body =
    \<lparr>calls = [token_request env, stk_request env now body token_text],
     outcome = Inr \<lparr>res_status = 200, res_body = data\<rparr>\<rparr>"
  using assms getOAuthToken_pair [of rt env upstream] by (simp add: stkpush_route_def)

lemma stkpush_route_calls:
  "calls (stkpush_route rt env upstream now body) =
     (if nullish body then []
      else case snd (getOAuthToken rt env upstream) of
             Inl err \<Rightarrow> [token_request env]
           | Inr token \<Rightarrow>
               (case to_string rt token of
                  Inl err \<Rightarrow> [token_request env]
                | Inr token_text \<Rightarrow>
                    [token_request env, stk_request env now body token_text]))"
proof (cases "nullish body")
  case True
  then show ?thesis by (simp add: stkpush_route_no_body failed_def)
next
  case False
  show ?thesis
  proof (cases "snd (getOAuthToken rt env upstream)")
    case (Inl err)
    with False show ?thesis by (simp add: stkpush_route_token_failed failed_def)
  next
    case token: (Inr token)
    show ?thesis
    proof (cases "to_string rt token")
      case (Inl err)
      with False token show ?thesis
        by (simp add: stkpush_route_token_unprintable failed_def)
    next
      case (Inr token_text)
      with False token show ?thesis
        by (cases "upstream (stk_request env now body token_text)")
          (simp_all add: stkpush_route_gateway_failed stkpush_route_succeeded failed_def)
    qed
  qed
qed

text \<open>The same for POST /c2b/register.\<close>

lemma c2b_register_route_no_body:
  assumes "nullish body"
  shows "c2b_register_route rt env upstream body =
    failed rt [] (TypeError (type_error_text rt body ''confirmationURL''))"
  using assms by (simp add: c2b_register_route_def)

lemma c2b_register_route_token_failed:
  assumes "\<not> nullish body" and "snd (getOAuthToken rt env upstream) = Inl err"
  shows "c2b_register_route rt env upstream body = failed rt [token_request env] err"
  using assms getOAuthToken_pair [of rt env upstream] by (simp add: c2b_register_route_def)

lemma c2b_register_route_token_unprintable:
  assumes "\<not> nullish body" and "snd (getOAuthToken rt env upstream) = Inr token"
    and "to_string rt token = Inl err"
  shows "c2b_register_route rt env upstream body = failed rt [token_request env] err"
  using assms getOAuthToken_pair [of rt env upstream] by (simp add: c2b_register_route_def)

lemma c2b_register_route_gateway_failed:
  assumes "\<not> nullish body" and "snd (getOAuthToken rt env upstream) = Inr token"
    and "to_string rt token = Inr token_text"
    and "upstream (register_request env body token_text) = Inl err"
  shows "c2b_register_route rt env upstream body =
    failed rt [token_request env, register_request env body token_text] err"
  using assms getOAuthToken_pair [of rt env upstream] by (simp add: c2b_register_route_def)

lemma c2b_register_route_succeeded:
  assumes "\<not> nullish body" and "snd (getOAuthToken rt env upstream) = Inr token"
    and "to_string rt token = Inr token_text"
    and "upstream (register_request env body token_text) = Inr data"
  shows "c2b_register_route rt env upstream body =
    \<lparr>calls = [token_request env, register_request env body token_text],
     outcome = Inr \<lparr>res_status = 200, res_body = data\<rparr>\<rparr>"
  using assms getOAuthToken_pair [of rt env upstream] by (simp add: c2b_register_route_def)

lemma c2b_register_route_calls:
  "calls (c2b_register_route rt env upstream body) =
     (if nullish body then []
      else case snd (getOAuthToken rt env upstream) of
             Inl err \<Rightarrow> [token_request env]
           | Inr token \<Rightarrow>
               (case to_string rt token of
                  Inl err \<Rightarrow> [token_request env]
                | Inr token_text \<Rightarrow>
                    [token_request env, register_request env body token_text]))"
proof (cases "nullish body")
  case True
  then show ?thesis by (simp add: c2b_register_route_no_body failed_def)
next
  case False
  show ?thesis
  proof (cases "snd (getOAuthToken rt env upstream)")
    case (Inl err)
    with False show ?thesis by (simp add: c2b_register_route_token_failed failed_def)
  next
    case token: (Inr token)
    show ?thesis
    proof (cases "to_string rt token")
      case (Inl err)
      with False token show ?thesis
        by (simp add: c2b_register_route_token_unprintable failed_def)
    next
      case (Inr token_text)
      with False token show ?thesis
        by (cases "upstream (register_request env body token_text)")
          (simp_all add: c2b_register_route_gateway_failed c2b_register_route_succeeded
            failed_def)
    qed
  qed
qed

lemma stkpush_route_posts:
  assumes "r \<in> set (gateway_posts (calls (stkpush_route rt env upstream now body)))"
  shows "\<exists>token_text. r = stk_request env now body token_text"
  using assms
  by (auto simp: stkpush_route_calls gateway_posts_def token_request_method
      stk_request_method split: if_splits sum.splits)

text \<open>The fixtures: what the token exchange gives at each gateway.\<close>

lemma token_at_gateway_ok:
  "snd (getOAuthToken fixture_runtime sandbox_env gateway_ok) = Inr (JStr ''tok123'')"
  by (simp add: getOAuthToken_result gateway_ok_def token_request_method read_property_def
      nullish_def)


lemma token_at_gateway_no_token:
  "snd (getOAuthToken fixture_runtime sandbox_env gateway_no_token) = Inr JUndefined"
  by (simp add: getOAuthToken_result gateway_no_token_def token_request_method
      read_property_def nullish_def)

lemma token_at_gateway_401:
  "snd (getOAuthToken fixture_runtime sandbox_env gateway_401) =
     Inl (AxiosError ''Request failed with status code 401''
            (Some (JObj [(''errorMessage'', JStr ''Invalid credentials'')])))"
  by (simp add: getOAuthToken_result gateway_401_def)

lemma token_at_gateway_down_after_token:
  "snd (getOAuthToken fixture_runtime sandbox_env gateway_down_after_token)
     = Inr (JStr ''tok123'')"
  by (simp add: getOAuthToken_result gateway_down_after_token_def token_request_method
      read_property_def nullish_def)

lemma push_body_not_nullish: "\<not> nullish push_body"
  by (simp add: nullish_def push_body_def)

lemma register_body_not_nullish: "\<not> nullish register_body"
  by (simp add: nullish_def register_body_def)

lemma posts_at_gateway_ok:
  "gateway_posts (calls (stkpush_route fixture_runtime sandbox_env gateway_ok now push_body))
     = [stk_request sandbox_env now push_body ''tok123'']"
  by (simp add: stkpush_route_calls push_body_not_nullish token_at_gateway_ok
      gateway_posts_def token_request_method stk_request_method)

section \<open>What the application serves\<close>






section \<open>The password of the push request\<close>

text \<open>
  C1. Whatever short code and pass key are configured, every call POST /stkpush makes to
  the gateway carries, as \<^verbatim>\<open>Password\<close>, the Base64 encoding of short code, pass key and
  the timestamp of the same payload, one after the other; and for every timestamp
  string, decoding the Base64 encoding of such a concatenation gives the concatenation
  back. The witness is the specification's example, run through the handler: short code
  174379, pass key \<^verbatim>\<open>test\<close>, a request served at 2024-01-01T12:00:00Z.
\<close>

theorem stk_password_is_base64:
  assumes "SHORTCODE env = Some shortcode" and "PASSKEY env = Some passkey"
    and "r \<in> set (gateway_posts (calls (stkpush_route rt env upstream now body)))"
  shows "get_prop (req_body r) ''Timestamp'' = JStr (stk_timestamp now)
       \<and> get_prop (req_body r) ''Password''
           = JStr (base64 (shortcode @ passkey @ stk_timestamp now))
       \<and> (\<forall>timestamp. base64_decode (base64 (shortcode @ passkey @ timestamp))
             = Some (shortcode @ passkey @ timestamp))"
proof -
  from assms(3) obtain token_text where "r = stk_request env now body token_text"
    using stkpush_route_posts by blast
  then have "req_body r = stk_payload env now body"
    by (simp add: stk_request_def)
  with assms(1,2) show ?thesis
    by (simp add: stk_payload_def Let_def stk_password_def env_template_def
        base64_decode_base64)
qed

theorem stk_password_is_base64_witness:
  "SHORTCODE sandbox_env = Some ''174379'' \<and> PASSKEY sandbox_env = Some ''test''
   \<and> gateway_posts (calls (stkpush_route fixture_runtime sandbox_env gateway_ok noon push_body))
       = [stk_request sandbox_env noon push_body ''tok123'']
   \<and> get_prop (req_body (stk_request sandbox_env noon push_body ''tok123'')) ''Timestamp''
       = JStr ''20240101120000''
   \<and> get_prop (req_body (stk_request sandbox_env noon push_body ''tok123'')) ''Password''
       = JStr ''MTc0Mzc5dGVzdDIwMjQwMTAxMTIwMDAw''
   \<and> base64_decode ''MTc0Mzc5dGVzdDIwMjQwMTAxMTIwMDAw'' = Some ''174379test20240101120000''"
proof -
  let ?r = "stk_request sandbox_env noon push_body ''tok123''"
  have s: "SHORTCODE sandbox_env = Some ''174379''" and p: "PASSKEY sandbox_env = Some ''test''"
    by (simp_all add: sandbox_env_def)
  note posts = posts_at_gateway_ok [of noon]
  then have r: "?r \<in> set (gateway_posts
      (calls (stkpush_route fixture_runtime sandbox_env gateway_ok noon push_body)))"
    by simp
  have t: "stk_timestamp noon = ''20240101120000''"
    by code_simp
  have c: "''174379'' @ ''test'' @ ''20240101120000'' = ''174379test20240101120000''"
    by simp
  have e: "base64 ''174379test20240101120000'' = ''MTc0Mzc5dGVzdDIwMjQwMTAxMTIwMDAw''"
    by code_simp
  note fixture = stk_password_is_base64 [OF s p r, unfolded t c e]
  from fixture have stamp: "get_prop (req_body ?r) ''Timestamp'' = JStr ''20240101120000''"
    by (rule conjunct1)
  from fixture have password: "get_prop (req_body ?r) ''Password''
       = JStr ''MTc0Mzc5dGVzdDIwMjQwMTAxMTIwMDAw''"
    by (rule conjunct2 [THEN conjunct1])
  from fixture have "\<forall>timestamp. base64_decode (base64 (''174379'' @ ''test'' @ timestamp))
             = Some (''174379'' @ ''test'' @ timestamp)"
    by (rule conjunct2 [THEN conjunct2])
  then have "base64_decode (base64 (''174379'' @ ''test'' @ ''20240101120000''))
             = Some (''174379'' @ ''test'' @ ''20240101120000'')"
    by (rule spec)
  then have decoded: "base64_decode ''MTc0Mzc5dGVzdDIwMjQwMTAxMTIwMDAw''
      = Some ''174379test20240101120000''"
    unfolding c e .
  from s p posts stamp password decoded show ?thesis by (intro conjI)
qed

section \<open>The timestamp of the push request\<close>

text \<open>
  C2, as stated, is about every instant. A timestamp of the form YYYYMMDDHHMMSS has room
  for a year of four digits, and for other years \<^verbatim>\<open>toISOString\<close> prints a sign and six
  digits: served at the first instant of the year 10000, POST /stkpush sends the
  timestamp \<^verbatim>\<open>+0100000101000\<close>, which is neither numeric nor the decomposition of that
  instant.
\<close>

theorem stk_timestamp_year_10000_counterexample:
  "gateway_posts
     (calls (stkpush_route fixture_runtime sandbox_env gateway_ok year_10000 push_body))
     = [stk_request sandbox_env year_10000 push_body ''tok123'']
   \<and> get_prop (req_body (stk_request sandbox_env year_10000 push_body ''tok123''))
        ''Timestamp'' = JStr ''+0100000101000''
   \<and> CHR ''+'' \<notin> set ''0123456789''"
proof -
  have t: "stk_timestamp year_10000 = ''+0100000101000''"
    by code_simp
  have "get_prop (req_body (stk_request sandbox_env year_10000 push_body ''tok123''))
        ''Timestamp'' = JStr ''+0100000101000''"
    unfolding t [symmetric] by (simp add: stk_request_def stk_payload_def Let_def)
  with posts_at_gateway_ok [of year_10000] show ?thesis by simp
qed



section \<open>The payload of the push request\<close>

text \<open>
  C3. When the body of POST /stkpush has no \<^verbatim>\<open>accountReference\<close> and no
  \<^verbatim>\<open>description\<close>, every call the handler makes to the gateway carries a payload with
  \<^verbatim>\<open>AccountReference\<close> "BOOK", \<^verbatim>\<open>TransactionDesc\<close> "Hotel booking", the \<^verbatim>\<open>amount\<close> of
  the body as \<^verbatim>\<open>Amount\<close>, its \<^verbatim>\<open>phone\<close> as \<^verbatim>\<open>PartyA\<close> and \<^verbatim>\<open>PhoneNumber\<close>, the
  configured short code as \<^verbatim>\<open>PartyB\<close> and \<^verbatim>\<open>BusinessShortCode\<close>, and the transaction
  type "CustomerPayBillOnline". The witness is the request for 100 from 254712345678.
\<close>

theorem stkpush_default_payload:
  assumes "get_prop body ''accountReference'' = JUndefined"
    and "get_prop body ''description'' = JUndefined"
    and "r \<in> set (gateway_posts (calls (stkpush_route rt env upstream now body)))"
  shows "get_prop (req_body r) ''AccountReference'' = JStr ''BOOK''
       \<and> get_prop (req_body r) ''TransactionDesc'' = JStr ''Hotel booking''
       \<and> get_prop (req_body r) ''Amount'' = get_prop body ''amount''
       \<and> get_prop (req_body r) ''PartyA'' = get_prop body ''phone''
       \<and> get_prop (req_body r) ''PhoneNumber'' = get_prop body ''phone''
       \<and> get_prop (req_body r) ''PartyB'' = env_value (SHORTCODE env)
       \<and> get_prop (req_body r) ''BusinessShortCode'' = env_value (SHORTCODE env)
       \<and> get_prop (req_body r) ''TransactionType'' = JStr ''CustomerPayBillOnline''"
proof -
  from assms(3) obtain token_text where "r = stk_request env now body token_text"
    by (auto simp: stkpush_route_calls gateway_posts_def token_request_method
        stk_request_method split: if_splits sum.splits)
  then have "req_body r = stk_payload env now body"
    by (simp add: stk_request_def)
  with assms(1,2) show ?thesis
    by (simp add: stk_payload_def Let_def default_to_def)
qed

theorem stkpush_default_payload_witness:
  "get_prop push_body ''accountReference'' = JUndefined
   \<and> get_prop push_body ''description'' = JUndefined
   \<and> gateway_posts (calls (stkpush_route fixture_runtime sandbox_env gateway_ok noon push_body))
       = [stk_request sandbox_env noon push_body ''tok123'']
   \<and> get_prop (req_body (stk_request sandbox_env noon push_body ''tok123''))
        ''AccountReference'' = JStr ''BOOK''
   \<and> get_prop (req_body (stk_request sandbox_env noon push_body ''tok123''))
        ''TransactionDesc'' = JStr ''Hotel booking''
   \<and> get_prop (req_body (stk_request sandbox_env noon push_body ''tok123''))
        ''Amount'' = JNum 100
   \<and> get_prop (req_body (stk_request sandbox_env noon push_body ''tok123''))
        ''PartyA'' = JStr ''254712345678''
   \<and> get_prop (req_body (stk_request sandbox_env noon push_body ''tok123''))
        ''PhoneNumber'' = JStr ''254712345678''
   \<and> get_prop (req_body (stk_request sandbox_env noon push_body ''tok123''))
        ''PartyB'' = JStr ''174379''"
proof -
  let ?r = "stk_request sandbox_env noon push_body ''tok123''"
  have a: "get_prop push_body ''accountReference'' = JUndefined"
    and d: "get_prop push_body ''description'' = JUndefined"
    by (simp_all add: push_body_def)
  have posts: "gateway_posts
      (calls (stkpush_route fixture_runtime sandbox_env gateway_ok noon push_body)) = [?r]"
    by (simp add: stkpush_route_calls push_body_not_nullish token_at_gateway_ok
        gateway_posts_def token_request_method stk_request_method)
  then have r: "?r \<in> set (gateway_posts
      (calls (stkpush_route fixture_runtime sandbox_env gateway_ok noon push_body)))"
    by simp
  have body: "get_prop push_body ''amount'' = JNum 100"
    "get_prop push_body ''phone'' = JStr ''254712345678''"
    by (simp_all add: push_body_def)
  have code: "env_value (SHORTCODE sandbox_env) = (JStr ''174379'' :: number jsval)"
    by (simp add: env_value_def sandbox_env_def)
  from stkpush_default_payload [OF a d r] a d posts show ?thesis
    unfolding body code by simp
qed

section \<open>The callback\<close>

text \<open>
  C4, as stated, is about every JSON body. The parser of line 8 refuses a JSON document
  that is neither an object nor an array before the handler runs: the body \<^verbatim>\<open>5\<close> is
  answered with 400. And the handler has an error path: a POST /callback without a JSON
  body leaves \<^verbatim>\<open>req.body\<close> \<^verbatim>\<open>undefined\<close>, line 99 throws, and the answer is 500.
\<close>

theorem callback_refused_counterexample:
  "status_sent (answer (fst (dispatch fixture_runtime sandbox_env
       (world_ok, PostCallback (JsonText (JNum 5)))))) = 400
   \<and> status_sent (answer (fst (dispatch fixture_runtime sandbox_env
       (world_ok, PostCallback NoJson)))) = 500"
  by (simp add: dispatch_def body_parser_def is_document_def express_def callback_route_def)



section \<open>Failures of the push request\<close>

text \<open>
  C5. When the token exchange fails, or the token exchange returns and the call to the
  gateway fails, POST /stkpush answers 500 with a body whose \<^verbatim>\<open>error\<close> field is present:
  it is the \<^verbatim>\<open>data\<close> of the error's response when there is one and it is truthy, and
  the error's message otherwise. The handler has made the token call once, and the
  gateway call once if it got that far: nothing is tried again. The witness has a 401
  with a JSON error body at the token exchange, and a gateway that cannot be reached
  after the token was given.
\<close>

theorem stkpush_failure_is_500:
  assumes "\<not> nullish body"
    and "snd (getOAuthToken rt env upstream) = Inl err
       \<or> (\<exists>token token_text.
             snd (getOAuthToken rt env upstream) = Inr token
           \<and> to_string rt token = Inr token_text
           \<and> upstream (stk_request env now body token_text) = Inl err)"
  shows "outcome (stkpush_route rt env upstream now body) =
           Inr \<lparr>res_status = 500,
                res_body = JObj [(''error'',
                  if truthy rt (err_response_data err) then err_response_data err
                  else JStr (err_message err))]\<rparr>
       \<and> (if truthy rt (err_response_data err) then err_response_data err
           else JStr (err_message err)) \<noteq> JUndefined
       \<and> (calls (stkpush_route rt env upstream now body) = [token_request env]
          \<or> (\<exists>token_text. calls (stkpush_route rt env upstream now body)
                = [token_request env, stk_request env now body token_text]))"
proof -
  have present: "(if truthy rt (err_response_data err) then err_response_data err
           else JStr (err_message err)) \<noteq> JUndefined"
    by (cases "err_response_data err") simp_all
  from assms(2)
  have "stkpush_route rt env upstream now body = failed rt [token_request env] err
      \<or> (\<exists>token_text. stkpush_route rt env upstream now body
            = failed rt [token_request env, stk_request env now body token_text] err)"
  proof
    assume "snd (getOAuthToken rt env upstream) = Inl err"
    with assms(1) show ?thesis by (simp add: stkpush_route_token_failed)
  next
    assume "\<exists>token token_text.
             snd (getOAuthToken rt env upstream) = Inr token
           \<and> to_string rt token = Inr token_text
           \<and> upstream (stk_request env now body token_text) = Inl err"
    then obtain token token_text
      where "snd (getOAuthToken rt env upstream) = Inr token"
        and "to_string rt token = Inr token_text"
        and "upstream (stk_request env now body token_text) = Inl err"
      by blast
    with assms(1) have "stkpush_route rt env upstream now body
        = failed rt [token_request env, stk_request env now body token_text] err"
      by (rule stkpush_route_gateway_failed)
    then show ?thesis by blast
  qed
  then have "outcome (stkpush_route rt env upstream now body) =
           Inr \<lparr>res_status = 500,
                res_body = JObj [(''error'',
                  if truthy rt (err_response_data err) then err_response_data err
                  else JStr (err_message err))]\<rparr>
       \<and> (calls (stkpush_route rt env upstream now body) = [token_request env]
          \<or> (\<exists>token_text. calls (stkpush_route rt env upstream now body)
                = [token_request env, stk_request env now body token_text]))"
    by (auto simp: failed_def js_or_def)
  with present show ?thesis by blast
qed

theorem stkpush_failure_is_500_witness:
  "\<not> nullish push_body
   \<and> snd (getOAuthToken fixture_runtime sandbox_env gateway_401) =
       Inl (AxiosError ''Request failed with status code 401''
              (Some (JObj [(''errorMessage'', JStr ''Invalid credentials'')])))
   \<and> outcome (stkpush_route fixture_runtime sandbox_env gateway_401 noon push_body) =
       Inr \<lparr>res_status = 500,
           res_body = JObj [(''error'',
             JObj [(''errorMessage'', JStr ''Invalid credentials'')])]\<rparr>
   \<and> snd (getOAuthToken fixture_runtime sandbox_env gateway_down_after_token) =
       Inr (JStr ''tok123'')
   \<and> to_string fixture_runtime (JStr ''tok123'') = Inr ''tok123''
   \<and> gateway_down_after_token (stk_request sandbox_env noon push_body ''tok123'')
       = Inl (AxiosError ''Network Error'' None)
   \<and> outcome (stkpush_route fixture_runtime sandbox_env gateway_down_after_token noon
         push_body) =
       Inr \<lparr>res_status = 500, res_body = JObj [(''error'', JStr ''Network Error'')]\<rparr>"
proof -
  let ?denied = "AxiosError ''Request failed with status code 401''
              (Some (JObj [(''errorMessage'', JStr ''Invalid credentials'')])) :: number js_error"
  let ?down = "AxiosError ''Network Error'' None :: number js_error"
  let ?push = "stk_request sandbox_env noon push_body ''tok123'' :: number http_request"
  have rendered: "to_string fixture_runtime (JStr ''tok123'') = Inr ''tok123''"
    by simp
  have down: "gateway_down_after_token ?push = Inl ?down"
    by (simp add: gateway_down_after_token_def stk_request_method)
  have first: "snd (getOAuthToken fixture_runtime sandbox_env gateway_401) = Inl ?denied
       \<or> (\<exists>token token_text.
             snd (getOAuthToken fixture_runtime sandbox_env gateway_401) = Inr token
           \<and> to_string fixture_runtime token = Inr token_text
           \<and> gateway_401 (stk_request sandbox_env noon push_body token_text) = Inl ?denied)"
    by (simp add: token_at_gateway_401)
  have second:
    "snd (getOAuthToken fixture_runtime sandbox_env gateway_down_after_token) = Inl ?down
       \<or> (\<exists>token token_text.
             snd (getOAuthToken fixture_runtime sandbox_env gateway_down_after_token)
               = Inr token
           \<and> to_string fixture_runtime token = Inr token_text
           \<and> gateway_down_after_token (stk_request sandbox_env noon push_body token_text)
               = Inl ?down)"
    using down by (simp add: token_at_gateway_down_after_token)
  have a: "outcome (stkpush_route fixture_runtime sandbox_env gateway_401 noon push_body) =
       Inr \<lparr>res_status = 500,
           res_body = JObj [(''error'',
             JObj [(''errorMessage'', JStr ''Invalid credentials'')])]\<rparr>"
    using stkpush_failure_is_500 [OF push_body_not_nullish first, THEN conjunct1]
    by simp
  have b: "outcome (stkpush_route fixture_runtime sandbox_env gateway_down_after_token noon
         push_body) =
       Inr \<lparr>res_status = 500, res_body = JObj [(''error'', JStr ''Network Error'')]\<rparr>"
    using stkpush_failure_is_500 [OF push_body_not_nullish second, THEN conjunct1]
    by simp
  from push_body_not_nullish token_at_gateway_401 a token_at_gateway_down_after_token
    rendered down b
  show ?thesis by (intro conjI)
qed

section \<open>One token exchange for every request\<close>

text \<open>
  C6, as stated, is about every invocation of the two routes. A POST /stkpush without a
  JSON body leaves \<^verbatim>\<open>req.body\<close> \<^verbatim>\<open>undefined\<close>; line 40 throws before line 41 is reached,
  so the request makes no token exchange at all, and is answered 500.
\<close>

theorem no_body_no_token_exchange_counterexample:
  "outbound (fst (dispatch fixture_runtime sandbox_env (world_ok, PostStkpush NoJson))) = []
   \<and> status_sent (answer (fst (dispatch fixture_runtime sandbox_env
        (world_ok, PostStkpush NoJson)))) = 500"
  by (simp add: dispatch_def body_parser_def express_def stkpush_route_no_body nullish_def
      failed_def)



section \<open>The token exchange\<close>

text \<open>
  C7. With a consumer key and a consumer secret configured, \<^verbatim>\<open>getOAuthToken\<close> makes one
  call: a GET of \<^verbatim>\<open>/oauth/v1/generate?grant_type=client_credentials\<close> under the base URL
  (the configured one, or the sandbox when none is set), whose \<^verbatim>\<open>Authorization\<close> header
  is "Basic " followed by the Base64 encoding of key, colon, secret. When the call
  resolves with a body other than \<^verbatim>\<open>null\<close>, the result is that body's \<^verbatim>\<open>access_token\<close>
  property as it is; for a JSON object with that key, the value bound to it.
\<close>

theorem getOAuthToken_exchange:
  assumes "CONSUMER_KEY env = Some consumerKey" and "CONSUMER_SECRET env = Some consumerSecret"
  shows "fst (getOAuthToken rt env upstream) =
           [\<lparr>req_method = GET,
             req_url = base_url env @ ''/oauth/v1/generate?grant_type=client_credentials'',
             req_headers = [(''Authorization'',
                ''Basic '' @ base64 (consumerKey @ '':'' @ consumerSecret))],
             req_body = JUndefined\<rparr>]
       \<and> (\<forall>data. upstream (token_request env) = Inr data \<and> \<not> nullish data \<longrightarrow>
             snd (getOAuthToken rt env upstream) = Inr (get_prop data ''access_token''))
       \<and> (\<forall>kvs token. upstream (token_request env) = Inr (JObj kvs)
              \<and> map_of kvs ''access_token'' = Some token \<longrightarrow>
             snd (getOAuthToken rt env upstream) = Inr token)"
proof -
  from assms have "fst (getOAuthToken rt env upstream) =
           [\<lparr>req_method = GET,
             req_url = base_url env @ ''/oauth/v1/generate?grant_type=client_credentials'',
             req_headers = [(''Authorization'',
                ''Basic '' @ base64 (consumerKey @ '':'' @ consumerSecret))],
             req_body = JUndefined\<rparr>]"
    by (simp add: getOAuthToken_calls token_request_def Let_def env_template_def)
  moreover have "snd (getOAuthToken rt env upstream) = Inr (get_prop data ''access_token'')"
    if "upstream (token_request env) = Inr data" and "\<not> nullish data" for data
    using that by (simp add: getOAuthToken_result read_property_def)
  moreover have "snd (getOAuthToken rt env upstream) = Inr token"
    if "upstream (token_request env) = Inr (JObj kvs)"
      and "map_of kvs ''access_token'' = Some token" for kvs token
    using that by (simp add: getOAuthToken_result read_property_def nullish_def)
  ultimately show ?thesis by blast
qed

theorem getOAuthToken_exchange_witness:
  "CONSUMER_KEY sandbox_env = Some ''key'' \<and> CONSUMER_SECRET sandbox_env = Some ''secret''
   \<and> gateway_ok (token_request sandbox_env)
       = Inr (JObj [(''access_token'', JStr ''tok123''), (''expires_in'', JStr ''3599'')])
   \<and> map_of [(''access_token'', JStr ''tok123''), (''expires_in'', JStr ''3599'')]
         ''access_token'' = Some (JStr ''tok123'' :: number jsval)
   \<and> getOAuthToken fixture_runtime sandbox_env gateway_ok =
       ([\<lparr>req_method = GET,
          req_url = ''https://sandbox.safaricom.co.ke/oauth/v1/generate?grant_type=client_credentials'',
          req_headers = [(''Authorization'', ''Basic a2V5OnNlY3JldA=='')],
          req_body = JUndefined\<rparr>],
        Inr (JStr ''tok123''))"
proof -
  have k: "CONSUMER_KEY sandbox_env = Some ''key''"
    and s: "CONSUMER_SECRET sandbox_env = Some ''secret''"
    by (simp_all add: sandbox_env_def)
  have answer: "gateway_ok (token_request sandbox_env)
       = Inr (JObj [(''access_token'', JStr ''tok123''), (''expires_in'', JStr ''3599'')])"
    by (simp add: gateway_ok_def token_request_method)
  have bound: "map_of [(''access_token'', JStr ''tok123''), (''expires_in'', JStr ''3599'')]
         ''access_token'' = Some (JStr ''tok123'' :: number jsval)"
    by simp
  have url: "base_url sandbox_env = ''https://sandbox.safaricom.co.ke''"
    by (simp add: base_url_def env_or_def sandbox_env_def)
  have basic: "base64 (''key'' @ '':'' @ ''secret'') = ''a2V5OnNlY3JldA==''"
    by code_simp
  note exchange = getOAuthToken_exchange [OF k s, of fixture_runtime gateway_ok]
  from exchange answer bound
  have token: "snd (getOAuthToken fixture_runtime sandbox_env gateway_ok) = Inr (JStr ''tok123'')"
    by blast
  from exchange have "fst (getOAuthToken fixture_runtime sandbox_env gateway_ok) =
       [\<lparr>req_method = GET,
          req_url = ''https://sandbox.safaricom.co.ke/oauth/v1/generate?grant_type=client_credentials'',
          req_headers = [(''Authorization'', ''Basic a2V5OnNlY3JldA=='')],
          req_body = JUndefined\<rparr>]"
    unfolding url basic by simp
  with token have "getOAuthToken fixture_runtime sandbox_env gateway_ok =
       ([\<lparr>req_method = GET,
          req_url = ''https://sandbox.safaricom.co.ke/oauth/v1/generate?grant_type=client_credentials'',
          req_headers = [(''Authorization'', ''Basic a2V5OnNlY3JldA=='')],
          req_body = JUndefined\<rparr>],
        Inr (JStr ''tok123''))"
    by (simp add: prod_eq_iff)
  with k s answer bound show ?thesis by (intro conjI)
qed

section \<open>Registering the callback URLs\<close>

text \<open>
  C8, as stated, says that every POST /c2b/register issues the POST to the gateway. It
  does not when the token exchange fails: with a gateway that answers the token
  exchange with a 401, the handler makes no call to \<^verbatim>\<open>registerurl\<close> (it answers 500).
\<close>

theorem c2b_register_without_token_counterexample:
  "gateway_posts
     (calls (c2b_register_route fixture_runtime sandbox_env gateway_401 register_body)) = []"
  by (simp add: c2b_register_route_calls register_body_not_nullish token_at_gateway_401
      gateway_posts_def token_request_method)

text \<open>
  C8, amended. Whenever the token exchange of a POST /c2b/register returns a token that
  can be written into the \<^verbatim>\<open>Authorization\<close> header, the handler goes on, without looking
  at the body, to POST to \<^verbatim>\<open>/mpesa/c2b/v1/registerurl\<close> under the base URL, with that
  bearer token and the payload \<^verbatim>\<open>ShortCode\<close>, \<^verbatim>\<open>ResponseType\<close> "Completed",
  \<^verbatim>\<open>ConfirmationURL\<close> and \<^verbatim>\<open>ValidationURL\<close>, the last two being whatever the body has under
  \<^verbatim>\<open>confirmationURL\<close> and \<^verbatim>\<open>validationURL\<close>: \<^verbatim>\<open>undefined\<close> for one that the body leaves
  out, as in the witness.
\<close>

theorem c2b_register_posts_unvalidated:
  assumes "\<not> nullish body" and "snd (getOAuthToken rt env upstream) = Inr token"
    and "to_string rt token = Inr token_text"
  shows "calls (c2b_register_route rt env upstream body) =
     [token_request env,
      \<lparr>req_method = POST,
       req_url = base_url env @ ''/mpesa/c2b/v1/registerurl'',
       req_headers = [(''Authorization'', ''Bearer '' @ token_text)],
       req_body = JObj [(''ShortCode'', env_value (SHORTCODE env)),
                        (''ResponseType'', JStr ''Completed''),
                        (''ConfirmationURL'', get_prop body ''confirmationURL''),
                        (''ValidationURL'', get_prop body ''validationURL'')]\<rparr>]"
  using assms by (simp add: c2b_register_route_calls register_request_def Let_def)

theorem c2b_register_posts_unvalidated_witness:
  "\<not> nullish register_body
   \<and> snd (getOAuthToken fixture_runtime sandbox_env gateway_ok) = Inr (JStr ''tok123'')
   \<and> to_string fixture_runtime (JStr ''tok123'') = Inr ''tok123''
   \<and> calls (c2b_register_route fixture_runtime sandbox_env gateway_ok register_body) =
     [token_request sandbox_env,
      \<lparr>req_method = POST,
       req_url = ''https://sandbox.safaricom.co.ke/mpesa/c2b/v1/registerurl'',
       req_headers = [(''Authorization'', ''Bearer tok123'')],
       req_body = JObj [(''ShortCode'', JStr ''174379''),
                        (''ResponseType'', JStr ''Completed''),
                        (''ConfirmationURL'', JUndefined),
                        (''ValidationURL'', JStr ''https://example.com/validation'')]\<rparr>]"
proof -
  have rendered: "to_string fixture_runtime (JStr ''tok123'') = Inr ''tok123''"
    by simp
  have url: "base_url sandbox_env = ''https://sandbox.safaricom.co.ke''"
    by (simp add: base_url_def env_or_def sandbox_env_def)
  have code: "env_value (SHORTCODE sandbox_env) = (JStr ''174379'' :: number jsval)"
    by (simp add: env_value_def sandbox_env_def)
  have urls: "get_prop register_body ''confirmationURL'' = JUndefined"
    "get_prop register_body ''validationURL'' = JStr ''https://example.com/validation''"
    by (simp_all add: register_body_def)
  from c2b_register_posts_unvalidated
    [OF register_body_not_nullish token_at_gateway_ok rendered]
  have "calls (c2b_register_route fixture_runtime sandbox_env gateway_ok register_body) =
     [token_request sandbox_env,
      \<lparr>req_method = POST,
       req_url = ''https://sandbox.safaricom.co.ke/mpesa/c2b/v1/registerurl'',
       req_headers = [(''Authorization'', ''Bearer tok123'')],
       req_body = JObj [(''ShortCode'', JStr ''174379''),
                        (''ResponseType'', JStr ''Completed''),
                        (''ConfirmationURL'', JUndefined),
                        (''ValidationURL'', JStr ''https://example.com/validation'')]\<rparr>]"
    unfolding url code urls by simp
  with register_body_not_nullish token_at_gateway_ok rendered show ?thesis
    by (intro conjI)
qed

section \<open>The debug route\<close>

text \<open>
  C9. When the token exchange fails, GET /token answers 500 with a body \<^verbatim>\<open>{error}\<close> that
  carries the error's message (line 111 reads \<^verbatim>\<open>err.message\<close> only: of the two things
  the claim allows, it is always the message, also when the gateway sent a JSON error
  body, as in the witness); when it returns, GET /token answers 200 with
  \<^verbatim>\<open>{access_token}\<close>.
\<close>

theorem token_route_replies:
  "(snd (getOAuthToken rt env upstream) = Inl err \<longrightarrow>
      outcome (token_route rt env upstream) =
        Inr \<lparr>res_status = 500, res_body = JObj [(''error'', JStr (err_message err))]\<rparr>)
   \<and> (snd (getOAuthToken rt env upstream) = Inr token \<longrightarrow>
      outcome (token_route rt env upstream) =
        Inr \<lparr>res_status = 200, res_body = JObj [(''access_token'', token)]\<rparr>)"
  by (cases "getOAuthToken rt env upstream") (auto simp: token_route_def)

theorem token_route_replies_witness:
  "snd (getOAuthToken fixture_runtime sandbox_env gateway_401) =
       Inl (AxiosError ''Request failed with status code 401''
              (Some (JObj [(''errorMessage'', JStr ''Invalid credentials'')])))
   \<and> outcome (token_route fixture_runtime sandbox_env gateway_401) =
       Inr \<lparr>res_status = 500,
            res_body = JObj [(''error'', JStr ''Request failed with status code 401'')]\<rparr>
   \<and> snd (getOAuthToken fixture_runtime sandbox_env gateway_ok) = Inr (JStr ''tok123'')
   \<and> outcome (token_route fixture_runtime sandbox_env gateway_ok) =
       Inr \<lparr>res_status = 200, res_body = JObj [(''access_token'', JStr ''tok123'')]\<rparr>"
proof -
  let ?denied = "AxiosError ''Request failed with status code 401''
              (Some (JObj [(''errorMessage'', JStr ''Invalid credentials'')])) :: number js_error"
  from token_route_replies [of fixture_runtime sandbox_env gateway_401 ?denied]
    token_at_gateway_401
  have refused: "outcome (token_route fixture_runtime sandbox_env gateway_401) =
       Inr \<lparr>res_status = 500,
            res_body = JObj [(''error'', JStr ''Request failed with status code 401'')]\<rparr>"
    by simp
  from token_route_replies [of fixture_runtime sandbox_env gateway_ok _ "JStr ''tok123''"]
    token_at_gateway_ok
  have given: "outcome (token_route fixture_runtime sandbox_env gateway_ok) =
       Inr \<lparr>res_status = 200, res_body = JObj [(''access_token'', JStr ''tok123'')]\<rparr>"
    by simp
  from token_at_gateway_401 refused token_at_gateway_ok given show ?thesis
    by (intro conjI)
qed

section \<open>A token response without a token\<close>

text \<open>
  C10, as stated, is about every 2xx token response whose JSON body lacks
  \<^verbatim>\<open>access_token\<close>. The document \<^verbatim>\<open>null\<close> is such a body, and reading \<^verbatim>\<open>access_token\<close> of
  it at line 31 throws: \<^verbatim>\<open>getOAuthToken\<close> raises, and GET /token answers 500.
\<close>

theorem null_token_response_counterexample:
  "gateway_null (token_request sandbox_env) = Inr JNull
   \<and> get_prop (JNull :: number jsval) ''access_token'' = JUndefined
   \<and> isl (snd (getOAuthToken fixture_runtime sandbox_env gateway_null))
   \<and> status_sent (answer (fst (dispatch fixture_runtime sandbox_env
        (\<lparr>gateway = gateway_null, clock = noon\<rparr>, GetToken NoJson)))) = 500"
proof -
  have answered: "gateway_null (token_request sandbox_env) = Inr JNull"
    by (simp add: gateway_null_def token_request_method)
  then have raised: "snd (getOAuthToken fixture_runtime sandbox_env gateway_null)
      = Inl (TypeError (type_error_text fixture_runtime JNull ''access_token''))"
    by (simp add: getOAuthToken_result read_property_def nullish_def)
  with getOAuthToken_pair [of fixture_runtime sandbox_env gateway_null]
  have "status_sent (answer (fst (dispatch fixture_runtime sandbox_env
        (\<lparr>gateway = gateway_null, clock = noon\<rparr>, GetToken NoJson)))) = 500"
    by (simp add: dispatch_def body_parser_def express_def token_route_def)
  with answered raised show ?thesis by simp
qed



end
